theory Spec2Isabelle
  imports Main "HOL-Library.AList"
begin

section \<open>JavaScript values\<close>

text \<open>
  The library is written in ECMAScript 6. Its values are embedded as follows.
  \<^item> Numbers (\<open>Num\<close>) are the integers from \<open>-2^53\<close> to \<open>2^53\<close>, the range in which every
    integer is a double; fractions, larger numbers, NaN and the infinities are left out.
  \<^item> Strings are lists of 8-bit characters.
  \<^item> A function is known by a reference (\<open>Fn\<close>): a function supplied by the
    application, a built-in function of the host, or one of the two methods
    \<open>DataController\<close> installs as handlers.
  \<^item> \<open>ErrObj e\<close> is an instance of the built-in error class \<open>e\<close>; messages are left out.
  \<^item> \<open>Obj chain props\<close> is an ordinary object: \<open>chain\<close> lists the names of the classes on
    its prototype chain, its own constructor first (empty for an object without a
    prototype), and \<open>props\<close> the properties that can be read from it, methods and
    accessors included. An object of a class of this library that defines \<open>toJSON\<close> has
    the class on its chain; of any other object all properties but the methods are taken
    to be its own enumerable properties, and a \<open>toJSON\<close> of its own is left out.
  \<^item> \<open>PayloadObj p\<close> is an instance of class \<open>Payload\<close>; \<open>p\<close> holds its private
    fields \<open>#requestor\<close> and \<open>#content\<close>.
  Objects are modelled by value.
\<close>

datatype jserror = TypeError | RangeError | ReferenceError | Error

datatype fnref = UserFn nat | Builtin string | DC_onSuccessEventHandler | DC_onErrorEventHandler

datatype 'v Payload = Payload (Payload_requestor: 'v) (Payload_content: "'v list")

datatype jsval =
    Undefined
  | Null
  | Bool bool
  | Num int
  | Str string
  | Fn fnref
  | ErrObj jserror
  | Arr "jsval list"
  | Obj "string list" "(string \<times> jsval) list"
  | PayloadObj "jsval Payload"

text \<open>The result of a method call: the value returned, or the error thrown.\<close>

datatype outcome = Returned jsval | Thrown jserror

text \<open>\<open>v == null\<close> holds for \<open>null\<close> and \<open>undefined\<close> only.\<close>

definition loose_null :: "jsval \<Rightarrow> bool" where
  "loose_null v = (v = Null \<or> v = Undefined)"

fun typeof :: "jsval \<Rightarrow> string" where
  "typeof Undefined = ''undefined''"
| "typeof Null = ''object''"
| "typeof (Bool b) = ''boolean''"
| "typeof (Num n) = ''number''"
| "typeof (Str s) = ''string''"
| "typeof (Fn f) = ''function''"
| "typeof (ErrObj e) = ''object''"
| "typeof (Arr xs) = ''object''"
| "typeof (Obj chain props) = ''object''"
| "typeof (PayloadObj p) = ''object''"

fun error_name :: "jserror \<Rightarrow> string" where
  "error_name TypeError = ''TypeError''"
| "error_name RangeError = ''RangeError''"
| "error_name ReferenceError = ''ReferenceError''"
| "error_name Error = ''Error''"

text \<open>\<open>v instanceof C\<close>: class \<open>C\<close> is on the prototype chain of \<open>v\<close>.\<close>

fun instanceof :: "jsval \<Rightarrow> string \<Rightarrow> bool" where
  "instanceof (Obj chain props) C = (C \<in> set chain)"
| "instanceof (PayloadObj p) C = (C = ''Payload'' \<or> C = ''Object'')"
| "instanceof (Arr xs) C = (C = ''Array'' \<or> C = ''Object'')"
| "instanceof (ErrObj e) C = (C = error_name e \<or> C = ''Error'' \<or> C = ''Object'')"
| "instanceof (Fn f) C = (C = ''Function'' \<or> C = ''Object'')"
| "instanceof v C = False"

section \<open>Arithmetic of doubles\<close>

text \<open>
  \<open>n + 1\<close> and \<open>n - 1\<close> on the numbers of the model. Both are exact but at the ends of the
  range: \<open>2^53 + 1\<close> is no double and rounds to \<open>2^53\<close>, and \<open>-2^53 - 1\<close> rounds to
  \<open>-2^53\<close>.
\<close>

definition max_exact :: int where
  "max_exact = 2 ^ 53"

definition number_succ :: "int \<Rightarrow> int" where
  "number_succ n = (if n < max_exact then n + 1 else n)"

definition number_pred :: "int \<Rightarrow> int" where
  "number_pred n = (if - max_exact < n then n - 1 else n)"

section \<open>BaseItemList\<close>

text \<open>
  The private fields \<open>#length\<close> and \<open>#items\<close>. The array \<open>#items\<close> is only read and
  written by property key, so it is a partial map from keys to values: a key that was
  never written, or was deleted, reads as \<open>undefined\<close>.
\<close>

record BaseItemList =
  length_priv :: int
  items_priv :: "int \<rightharpoonup> jsval"

definition array_get :: "(int \<rightharpoonup> jsval) \<Rightarrow> int \<Rightarrow> jsval" where
  "array_get a i = (case a i of None \<Rightarrow> Undefined | Some v \<Rightarrow> v)"

definition BaseItemList_constructor :: BaseItemList where
  "BaseItemList_constructor = \<lparr>length_priv = 0, items_priv = Map.empty\<rparr>"

definition BaseItemList_get_length :: "BaseItemList \<Rightarrow> int" where
  "BaseItemList_get_length L = length_priv L"

definition BaseItemList_set_length :: "BaseItemList \<Rightarrow> int \<Rightarrow> BaseItemList" where
  "BaseItemList_set_length L newValue = L\<lparr>length_priv := newValue\<rparr>"

definition BaseItemList_get_items :: "BaseItemList \<Rightarrow> (int \<rightharpoonup> jsval)" where
  "BaseItemList_get_items L = items_priv L"

definition BaseItemList_item :: "BaseItemList \<Rightarrow> int \<Rightarrow> outcome" where
  "BaseItemList_item L index =
     (if index < 0 \<or> index > number_pred (BaseItemList_get_length L) then Thrown RangeError
      else Returned (array_get (BaseItemList_get_items L) index))"

text \<open>
  In \<open>push\<close> the message of the error reads \<open>obj.constructor.name\<close>, which itself throws
  a TypeError when \<open>obj\<close> is \<open>null\<close>, \<open>undefined\<close> or has no constructor; either way a
  TypeError leaves the method before any field is written.
\<close>

definition BaseItemList_push :: "BaseItemList \<Rightarrow> jsval \<Rightarrow> outcome \<times> BaseItemList" where
  "BaseItemList_push L obj =
     (if loose_null obj \<or> \<not> instanceof obj ''BaseItem'' then (Thrown TypeError, L)
      else (Returned Undefined,
            L\<lparr>items_priv := (items_priv L)(BaseItemList_get_length L \<mapsto> obj),
              length_priv := number_succ (length_priv L)\<rparr>))"

definition BaseItemList_pop :: "BaseItemList \<Rightarrow> outcome \<times> BaseItemList" where
  "BaseItemList_pop L =
     (if BaseItemList_get_length L > 0
      then (let L1 = BaseItemList_set_length L (number_pred (BaseItemList_get_length L))
            in (Returned Undefined, L1\<lparr>items_priv := (items_priv L1)(BaseItemList_get_length L1 := None)\<rparr>))
      else (Returned Undefined, L))"


text \<open>
  \<open>delete(index)\<close> for an index that is not a number and converts to NaN, such as
  \<open>undefined\<close>: both comparisons of the range check are false, so nothing is thrown; the
  key deleted is the text of the index, which is not the key of a slot; and \<open>#length\<close>
  is decremented all the same.
\<close>

definition BaseItemList_delete_NaN :: "BaseItemList \<Rightarrow> outcome \<times> BaseItemList" where
  "BaseItemList_delete_NaN L = (Returned Undefined, L\<lparr>length_priv := number_pred (length_priv L)\<rparr>)"

text \<open>
  In \<open>replace\<close> the message of the TypeError names a variable \<open>element\<close> that is not
  declared, so building the message throws a ReferenceError instead.
\<close>

definition BaseItemList_replace :: "BaseItemList \<Rightarrow> int \<Rightarrow> jsval \<Rightarrow> outcome \<times> BaseItemList" where
  "BaseItemList_replace L index obj =
     (if index < 0 \<or> index > number_pred (BaseItemList_get_length L) then (Thrown RangeError, L)
      else if loose_null obj \<or> \<not> instanceof obj ''BaseItem'' then (Thrown ReferenceError, L)
      else (Returned Undefined, L\<lparr>items_priv := (items_priv L)(index \<mapsto> obj)\<rparr>))"

definition BaseItemList_clear :: "BaseItemList \<Rightarrow> outcome \<times> BaseItemList" where
  "BaseItemList_clear L = (Returned Undefined, L\<lparr>items_priv := Map.empty, length_priv := 0\<rparr>)"

section \<open>Conversions of the language\<close>

text \<open>\<open>ToBoolean\<close>: the values that count as false are \<open>undefined\<close>, \<open>null\<close>, \<open>false\<close>,
  \<open>0\<close> and the empty string.\<close>

fun ToBoolean :: "jsval \<Rightarrow> bool" where
  "ToBoolean Undefined = False"
| "ToBoolean Null = False"
| "ToBoolean (Bool b) = b"
| "ToBoolean (Num n) = (n \<noteq> 0)"
| "ToBoolean (Str s) = (s \<noteq> [])"
| "ToBoolean v = True"

definition digit_char :: "nat \<Rightarrow> char" where
  "digit_char d = ''0123456789'' ! d"

function nat_digits :: "nat \<Rightarrow> string" where
  "nat_digits n = (if n < 10 then [digit_char n] else nat_digits (n div 10) @ [digit_char (n mod 10)])"
  by pat_completeness auto
termination
  by (relation "measure id") auto

declare nat_digits.simps [simp del]

definition Number_toString :: "int \<Rightarrow> string" where
  "Number_toString n = (if n < 0 then CHR ''-'' # nat_digits (nat (- n)) else nat_digits (nat n))"

fun join_comma :: "string list \<Rightarrow> string" where
  "join_comma [] = []"
| "join_comma [s] = s"
| "join_comma (s # t # ss) = s @ '','' @ join_comma (t # ss)"

text \<open>
  \<open>ToString\<close>, as the operator \<open>in\<close> applies it to its left operand to obtain a property
  key. An ordinary object prints as \<open>[object Object]\<close> (objects that override \<open>toString\<close>
  or \<open>valueOf\<close>, or inherit neither, are left out). The text of a function is its source and the text of an
  error ends with its message; neither is modelled, and each is represented by a text
  holding a character that no property name of the tables below has.
\<close>

fun ToString :: "jsval \<Rightarrow> string" where
  "ToString Undefined = ''undefined''"
| "ToString Null = ''null''"
| "ToString (Bool b) = (if b then ''true'' else ''false'')"
| "ToString (Num n) = Number_toString n"
| "ToString (Str s) = s"
| "ToString (Fn f) = ''function () { }''"
| "ToString (ErrObj e) = error_name e @ '': ''"
| "ToString (Arr xs) = join_comma (map (\<lambda>x. if x = Null \<or> x = Undefined then [] else ToString x) xs)"
| "ToString (Obj chain props) = ''[object Object]''"
| "ToString (PayloadObj p) = ''[object Object]''"

text \<open>
  \<open>v.constructor.name\<close>, for a value \<open>v\<close> that is not \<open>null\<close> or \<open>undefined\<close>. The
  constructor is the own property \<open>constructor\<close> if the object has one, else the class
  at the head of its chain, else \<open>undefined\<close>. Reading \<open>.name\<close> of \<open>null\<close> or \<open>undefined\<close>
  throws a TypeError; the name of a class is its name, the name of an object is its
  property \<open>name\<close>, and a function of the application is taken to be anonymous.
\<close>

fun function_name :: "fnref \<Rightarrow> string" where
  "function_name (UserFn k) = []"
| "function_name (Builtin n) = n"
| "function_name DC_onSuccessEventHandler = ''onSuccessEventHandler''"
| "function_name DC_onErrorEventHandler = ''onErrorEventHandler''"

fun read_name :: "jsval \<Rightarrow> jserror + jsval" where
  "read_name Undefined = Inl TypeError"
| "read_name Null = Inl TypeError"
| "read_name (Fn f) = Inr (Str (function_name f))"
| "read_name (ErrObj e) = Inr (Str (error_name e))"
| "read_name (Obj chain props) = Inr (case map_of props ''name'' of Some v \<Rightarrow> v | None \<Rightarrow> Undefined)"
| "read_name v = Inr Undefined"

fun constructor_name :: "jsval \<Rightarrow> jserror + jsval" where
  "constructor_name (Obj chain props) =
     (case map_of props ''constructor'' of
        Some c \<Rightarrow> read_name c
      | None \<Rightarrow> (case chain of [] \<Rightarrow> Inl TypeError | k # ks \<Rightarrow> Inr (Str k)))"
| "constructor_name (PayloadObj p) = Inr (Str ''Payload'')"
| "constructor_name (Arr xs) = Inr (Str ''Array'')"
| "constructor_name (ErrObj e) = Inr (Str (error_name e))"
| "constructor_name (Fn f) = Inr (Str ''Function'')"
| "constructor_name (Bool b) = Inr (Str ''Boolean'')"
| "constructor_name (Num n) = Inr (Str ''Number'')"
| "constructor_name (Str s) = Inr (Str ''String'')"
| "constructor_name v = Inl TypeError"

section \<open>The host's built-in prototypes\<close>

text \<open>
  The property names every ordinary object inherits from \<open>Object.prototype\<close>, and the
  ones an array inherits from \<open>Array.prototype\<close> (ECMAScript 2020). The values behind
  them are functions, but for \<open>__proto__\<close>, which reads as the prototype object.
\<close>

definition Object_prototype :: "string list" where
  "Object_prototype =
     [''constructor'', ''__defineGetter__'', ''__defineSetter__'', ''hasOwnProperty'',
      ''__lookupGetter__'', ''__lookupSetter__'', ''isPrototypeOf'', ''propertyIsEnumerable'',
      ''toString'', ''valueOf'', ''__proto__'', ''toLocaleString'']"

definition Array_prototype :: "string list" where
  "Array_prototype =
     [''concat'', ''copyWithin'', ''fill'', ''find'', ''findIndex'', ''lastIndexOf'', ''pop'',
      ''push'', ''reverse'', ''shift'', ''unshift'', ''slice'', ''sort'', ''splice'', ''includes'',
      ''indexOf'', ''join'', ''keys'', ''entries'', ''values'', ''forEach'', ''filter'', ''flat'',
      ''flatMap'', ''map'', ''every'', ''some'', ''reduce'', ''reduceRight'']"

definition inherited :: "string \<Rightarrow> jsval" where
  "inherited prop = (if prop = ''__proto__'' then Obj [] [] else Fn (Builtin prop))"

text \<open>A plain object, as an object literal builds it: its own properties in the order
  written. None of the objects below has a key that is an array index.\<close>

type_synonym plain_object = "(string \<times> jsval) list"

text \<open>\<open>prop in obj\<close> and \<open>obj[prop]\<close> on a plain object.\<close>

definition object_has :: "plain_object \<Rightarrow> string \<Rightarrow> bool" where
  "object_has obj prop = (map_of obj prop \<noteq> None \<or> prop \<in> set Object_prototype)"

definition object_get :: "plain_object \<Rightarrow> string \<Rightarrow> jsval" where
  "object_get obj prop =
     (case map_of obj prop of
        Some v \<Rightarrow> v
      | None \<Rightarrow> if prop \<in> set Object_prototype then inherited prop else Undefined)"

definition Reflect_ownKeys :: "plain_object \<Rightarrow> string list" where
  "Reflect_ownKeys obj = map fst obj"

text \<open>\<open>keys[prop]\<close> on an array of strings: an element when \<open>prop\<close> is the decimal text of
  an index below the length, the length itself, an inherited method, or \<open>undefined\<close>.\<close>

definition string_array_get :: "string list \<Rightarrow> string \<Rightarrow> jsval" where
  "string_array_get keys prop =
     (case find (\<lambda>i. nat_digits i = prop) [0..<length keys] of
        Some i \<Rightarrow> Str (keys ! i)
      | None \<Rightarrow>
          if prop = ''length'' then Num (int (length keys))
          else if prop \<in> set Array_prototype \<or> prop \<in> set Object_prototype then inherited prop
          else Undefined)"

section \<open>Enumerator\<close>

text \<open>
  \<open>new Enumerator(obj)\<close> returns a proxy around \<open>obj\<close>; the proxy is modelled by its
  target and the three traps by functions of the target.
\<close>

definition Enumerator_get :: "plain_object \<Rightarrow> string \<Rightarrow> jsval" where
  "Enumerator_get obj prop = (if object_has obj prop then object_get obj prop else Null)"

definition Enumerator_set :: "plain_object \<Rightarrow> string \<Rightarrow> jsval \<Rightarrow> plain_object" where
  "Enumerator_set obj prop v = AList.update prop v obj"

definition Enumerator_has :: "plain_object \<Rightarrow> string \<Rightarrow> jsval" where
  "Enumerator_has obj prop =
     (if object_has obj prop then object_get obj prop
      else string_array_get (Reflect_ownKeys obj) prop)"

text \<open>
  \<open>key in enumerator\<close>: the key is converted to a property name and the result of the
  \<open>has\<close> trap to a boolean. (The proxy would raise a TypeError if the trap denied a
  property that the target owns and cannot delete; the targets here are extensible and
  all their properties are configurable.)
\<close>

definition in_Enumerator :: "jsval \<Rightarrow> plain_object \<Rightarrow> bool" where
  "in_Enumerator key obj = ToBoolean (Enumerator_has obj (ToString key))"

definition ViewControllerAction :: plain_object where
  "ViewControllerAction =
     [(''Create'', Num 1), (''Edit'', Num 2), (''Remove'', Num 3), (''Load'', Num 4), (''Custom'', Num 5)]"

definition DataFieldType :: plain_object where
  "DataFieldType = [(''String'', Num 1), (''Number'', Num 2), (''DateTime'', Num 3), (''Boolean'', Num 4)]"

definition DataControllerStatus :: plain_object where
  "DataControllerStatus = [(''Succeeded'', Bool True), (''Failed'', Bool False)]"

section \<open>DataField\<close>

record DataField =
  fieldName :: jsval
  fieldType :: jsval
  fieldValue :: jsval
  isRequired :: jsval
  onValidateCallback :: jsval

text \<open>
  \<open>v.bind(this)\<close>, the last statement of the constructor: a function has \<open>bind\<close>; on any
  other value the call throws a TypeError, unless the value is an object with a method
  \<open>bind\<close> of its own, which is then taken to return.
\<close>

fun can_bind :: "jsval \<Rightarrow> bool" where
  "can_bind (Fn f) = True"
| "can_bind (Obj chain props) = (case map_of props ''bind'' of Some (Fn f) \<Rightarrow> True | _ \<Rightarrow> False)"
| "can_bind v = False"

definition DataField_constructor ::
  "jsval \<Rightarrow> jsval \<Rightarrow> jsval \<Rightarrow> jsval \<Rightarrow> jsval \<Rightarrow> jserror + DataField" where
  "DataField_constructor name type val required callback =
     (if \<not> in_Enumerator type DataFieldType then Inl TypeError
      else if \<not> can_bind callback then Inl TypeError
      else Inr \<lparr>fieldName = name, fieldType = type, fieldValue = val,
                isRequired = (if required = Undefined then Bool False else required),
                onValidateCallback = callback\<rparr>)"

section \<open>Regular expressions\<close>

text \<open>
  The fragment of regular expressions that \<open>PATTERN_URL\<close> is written in. \<open>rx_match r s\<close>
  lists what is left of \<open>s\<close> after each way of matching \<open>r\<close> at its start, in the order a
  backtracking matcher tries them. The dot matches any character but a line terminator.
\<close>

datatype regex =
    Lit string
  | Dot
  | OneOf "char list"
  | Opt regex
  | Alt regex regex
  | Seq regex regex
  | Many1 regex

fun repeat1 :: "nat \<Rightarrow> (string \<Rightarrow> string list) \<Rightarrow> string \<Rightarrow> string list" where
  "repeat1 0 f s = []"
| "repeat1 (Suc n) f s = concat (map (\<lambda>t. repeat1 n f t @ [t]) (f s))"

primrec rx_match :: "regex \<Rightarrow> string \<Rightarrow> string list" where
  "rx_match (Lit l) s = (if take (length l) s = l then [drop (length l) s] else [])"
| "rx_match Dot s =
     (case s of [] \<Rightarrow> [] | c # cs \<Rightarrow> if c = CHR 0x0A \<or> c = CHR 0x0D then [] else [cs])"
| "rx_match (OneOf cs) s = (case s of [] \<Rightarrow> [] | c # t \<Rightarrow> if c \<in> set cs then [t] else [])"
| "rx_match (Opt r) s = rx_match r s @ [s]"
| "rx_match (Alt a b) s = rx_match a s @ rx_match b s"
| "rx_match (Seq a b) s = concat (map (rx_match b) (rx_match a s))"
| "rx_match (Many1 r) s = repeat1 (Suc (length s)) (rx_match r) s"

text \<open>\<open>/^(http)s?:\/\/(www|localhost)(.|\/)[a-z0-9-\.\/]+/\<close>: anchored at the start only,
  without flags, so \<open>test\<close> keeps no state between calls.\<close>

definition PATTERN_URL :: regex where
  "PATTERN_URL =
     Seq (Lit ''http'') (Seq (Opt (Lit ''s'')) (Seq (Lit ''://'')
       (Seq (Alt (Lit ''www'') (Lit ''localhost'')) (Seq (Alt Dot (Lit ''/''))
         (Many1 (OneOf ''abcdefghijklmnopqrstuvwxyz0123456789-./''))))))"

definition regex_test :: "regex \<Rightarrow> string \<Rightarrow> bool" where
  "regex_test r s = (rx_match r s \<noteq> [])"

section \<open>Payload\<close>

definition plain :: "(string \<times> jsval) list \<Rightarrow> jsval" where
  "plain props = Obj [''Object''] props"

text \<open>
  The constructor throws a TypeError for a requestor that is \<open>null\<close>, \<open>undefined\<close> or
  not of type object (building the message throws one for \<open>null\<close> already); otherwise
  \<open>#requestor\<close> is \<open>requestor.constructor.name\<close>, whatever that reads, and reading it can
  throw.
\<close>

definition Payload_constructor :: "jsval \<Rightarrow> jserror + jsval Payload" where
  "Payload_constructor requestor =
     (if loose_null requestor \<or> typeof requestor \<noteq> ''object'' then Inl TypeError
      else case constructor_name requestor of
             Inl e \<Rightarrow> Inl e
           | Inr n \<Rightarrow> Inr (Payload n []))"

definition Payload_set_content :: "jsval Payload \<Rightarrow> jsval \<Rightarrow> jsval Payload" where
  "Payload_set_content p newValue = Payload (Payload_requestor p) (Payload_content p @ [newValue])"

text \<open>The class declares \<open>set content\<close> and no \<open>get content\<close>: reading the property
  \<open>content\<close> yields \<open>undefined\<close>.\<close>

definition Payload_get_content :: "jsval Payload \<Rightarrow> jsval" where
  "Payload_get_content p = Undefined"

definition Payload_clearContent :: "jsval Payload \<Rightarrow> jsval Payload" where
  "Payload_clearContent p = Payload (Payload_requestor p) []"

text \<open>The object literal \<open>addContent\<close> builds; \<open>now\<close> is what \<open>Date.now()\<close> returns during
  the call.\<close>

definition content_entry :: "jsval \<Rightarrow> int \<Rightarrow> jsval \<Rightarrow> jsval" where
  "content_entry requestor now obj =
     plain [(''header'', plain [(''requestor'', requestor), (''time'', Num now)]), (''body'', obj)]"

definition Payload_addContent :: "int \<Rightarrow> jsval Payload \<Rightarrow> jsval \<Rightarrow> jsval Payload" where
  "Payload_addContent now p obj = Payload_set_content p (content_entry (Payload_requestor p) now obj)"

definition Payload_toJSON :: "jsval Payload \<Rightarrow> jsval" where
  "Payload_toJSON p = Payload_get_content p"

section \<open>JSON.stringify\<close>

text \<open>
  The JSON document \<open>JSON.stringify\<close> writes, as a tree; \<open>None\<close> when it returns
  \<open>undefined\<close>. Each value reached is first replaced by what its method \<open>toJSON\<close>
  returns, if it has one: \<open>this.content\<close> for a \<open>BaseItem\<close> and for a \<open>Payload\<close>,
  \<open>this.items\<close> for a \<open>BaseItemList\<close>, each read as a property of the object. What the
  method returns is written without asking it for \<open>toJSON\<close> again (\<open>JSON_serialize
  False\<close>). An object is written with its own enumerable properties, which an object of
  these three classes, whose state is private, is taken not to have. A property whose
  value has no JSON form is left out of an object and written \<open>null\<close> in an array.
\<close>

datatype json =
    JNull
  | JBool bool
  | JNum int
  | JStr string
  | JArr "json list"
  | JObj "(string \<times> json) list"

definition has_toJSON :: "string list \<Rightarrow> bool" where
  "has_toJSON chain = (''BaseItem'' \<in> set chain \<or> ''Payload'' \<in> set chain \<or> ''BaseItemList'' \<in> set chain)"

function JSON_serialize :: "bool \<Rightarrow> jsval \<Rightarrow> json option" where
  "JSON_serialize t Undefined = None"
| "JSON_serialize t Null = Some JNull"
| "JSON_serialize t (Bool b) = Some (JBool b)"
| "JSON_serialize t (Num n) = Some (JNum n)"
| "JSON_serialize t (Str s) = Some (JStr s)"
| "JSON_serialize t (Fn f) = None"
| "JSON_serialize t (ErrObj e) = Some (JObj [])"
| "JSON_serialize t (Arr xs) =
     Some (JArr (map (\<lambda>x. case JSON_serialize True x of None \<Rightarrow> JNull | Some j \<Rightarrow> j) xs))"
| "JSON_serialize t (Obj chain props) =
     (if has_toJSON chain then
        (if t then
           (case map_of props (if ''BaseItemList'' \<in> set chain then ''items'' else ''content'') of
              None \<Rightarrow> None
            | Some v \<Rightarrow> JSON_serialize False v)
         else Some (JObj []))
      else
        Some (JObj (concat (map (\<lambda>kv. case JSON_serialize True (snd kv) of None \<Rightarrow> [] | Some j \<Rightarrow> [(fst kv, j)]) props))))"
| "JSON_serialize t (PayloadObj p) =
     (if t then JSON_serialize False (Payload_toJSON p) else Some (JObj []))"
  by pat_completeness auto
termination
proof (relation "measure (\<lambda>(t, v). size v)", goal_cases)
  case 1
  show ?case by simp
next
  case (2 t xs x)
  then have "size x \<le> size_list size xs" by (simp add: size_list_estimation')
  then show ?case by simp
next
  case (3 t chain props v)
  then have "(if ''BaseItemList'' \<in> set chain then ''items'' else ''content'', v) \<in> set props"
    by (simp add: map_of_SomeD)
  then have "size_prod (\<lambda>_. 0) size (if ''BaseItemList'' \<in> set chain then ''items'' else ''content'', v)
      \<le> size_list (size_prod (\<lambda>_. 0) size) props"
    by (rule size_list_estimation') simp
  then show ?case by simp
next
  case (4 t chain props kv)
  then have "size_prod (\<lambda>_. 0) size kv \<le> size_list (size_prod (\<lambda>_. 0) size) props"
    by (simp add: size_list_estimation')
  moreover have "size (snd kv) \<le> size_prod (\<lambda>_. 0) size kv" by (cases kv) simp
  ultimately show ?case by simp
next
  case (5 t p)
  show ?case by (simp add: Payload_toJSON_def Payload_get_content_def)
qed

definition JSON_stringify :: "jsval \<Rightarrow> json option" where
  "JSON_stringify v = JSON_serialize True v"

section \<open>BaseController\<close>

text \<open>The private fields. \<open>#sender\<close> is declared but not set by the constructor.\<close>

record BaseController =
  recipient_priv :: jsval
  sender_priv :: jsval
  payload_priv :: jsval
  onSuccessEventHandler_priv :: jsval
  onErrorEventHandler_priv :: jsval

definition BaseController_constructor :: BaseController where
  "BaseController_constructor =
     \<lparr>recipient_priv = Null, sender_priv = Undefined, payload_priv = Null,
      onSuccessEventHandler_priv = Null, onErrorEventHandler_priv = Null\<rparr>"

text \<open>A setter returns its outcome and the controller as it leaves it.\<close>

definition BaseController_set_payload ::
  "'a BaseController_scheme \<Rightarrow> jsval \<Rightarrow> outcome \<times> 'a BaseController_scheme" where
  "BaseController_set_payload c newValue =
     (if \<not> instanceof newValue ''Payload'' \<or> loose_null newValue then (Thrown TypeError, c)
      else (Returned Undefined, c\<lparr>payload_priv := newValue\<rparr>))"

definition BaseController_get_payload :: "'a BaseController_scheme \<Rightarrow> jsval" where
  "BaseController_get_payload c = payload_priv c"

text \<open>The test of both URL setters:
  \<open>newValue == null || !(typeof newValue === "string") || PATTERN_URL.test(newValue) == false\<close>.\<close>

definition invalid_url :: "jsval \<Rightarrow> bool" where
  "invalid_url newValue =
     (loose_null newValue \<or> typeof newValue \<noteq> ''string'' \<or> \<not> regex_test PATTERN_URL (ToString newValue))"

definition BaseController_set_recipient ::
  "'a BaseController_scheme \<Rightarrow> jsval \<Rightarrow> outcome \<times> 'a BaseController_scheme" where
  "BaseController_set_recipient c newValue =
     (if invalid_url newValue then (Thrown TypeError, c)
      else (Returned Undefined, c\<lparr>recipient_priv := newValue\<rparr>))"

definition BaseController_get_recipient :: "'a BaseController_scheme \<Rightarrow> jsval" where
  "BaseController_get_recipient c = recipient_priv c"

definition BaseController_set_sender ::
  "'a BaseController_scheme \<Rightarrow> jsval \<Rightarrow> outcome \<times> 'a BaseController_scheme" where
  "BaseController_set_sender c newValue =
     (if invalid_url newValue then (Thrown TypeError, c)
      else (Returned Undefined, c\<lparr>sender_priv := newValue\<rparr>))"

definition BaseController_get_sender :: "'a BaseController_scheme \<Rightarrow> jsval" where
  "BaseController_get_sender c = sender_priv c"

definition BaseController_set_onSuccessEventHandler ::
  "'a BaseController_scheme \<Rightarrow> jsval \<Rightarrow> outcome \<times> 'a BaseController_scheme" where
  "BaseController_set_onSuccessEventHandler c newValue =
     (Returned Undefined,
      c\<lparr>onSuccessEventHandler_priv :=
           (if \<not> loose_null newValue \<and> typeof newValue = ''function'' then newValue else Null)\<rparr>)"

definition BaseController_get_onSuccessEventHandler :: "'a BaseController_scheme \<Rightarrow> jsval" where
  "BaseController_get_onSuccessEventHandler c = onSuccessEventHandler_priv c"

definition BaseController_set_onErrorEventHandler ::
  "'a BaseController_scheme \<Rightarrow> jsval \<Rightarrow> outcome \<times> 'a BaseController_scheme" where
  "BaseController_set_onErrorEventHandler c newValue =
     (Returned Undefined,
      c\<lparr>onErrorEventHandler_priv :=
           (if \<not> loose_null newValue \<and> typeof newValue = ''function'' then newValue else Null)\<rparr>)"

definition BaseController_get_onErrorEventHandler :: "'a BaseController_scheme \<Rightarrow> jsval" where
  "BaseController_get_onErrorEventHandler c = onErrorEventHandler_priv c"

subsection \<open>execute\<close>

text \<open>
  The request \<open>execute\<close> opens and sends, and the promise it builds: pending on the
  request, or settled. \<open>execute\<close> throws when the recipient or the payload is missing;
  when the browser has no \<open>XMLHttpRequest\<close> the promise's executor throws, which rejects
  the promise.
\<close>

record request =
  http_method :: string
  url :: jsval
  headers :: "(string \<times> string) list"
  body :: "json option"

datatype settled = Resolved jsval | Rejected jsval

datatype promise = Pending request | Settled settled

definition BaseController_execute :: "bool \<Rightarrow> 'a BaseController_scheme \<Rightarrow> jserror + promise" where
  "BaseController_execute has_XMLHttpRequest c =
     (if loose_null (BaseController_get_recipient c) then Inl Error
      else if loose_null (BaseController_get_payload c) then Inl Error
      else if \<not> has_XMLHttpRequest then Inr (Settled (Rejected (ErrObj Error)))
      else Inr (Pending \<lparr>http_method = ''POST'', url = BaseController_get_recipient c,
                         headers = [(''Content-type'', ''application/json'')],
                         body = JSON_stringify (BaseController_get_payload c)\<rparr>))"

text \<open>The state of the request when \<open>onreadystatechange\<close> fires.\<close>

record xhr =
  readyState :: nat
  status :: nat
  responseText :: string

text \<open>The object passed to \<open>resolve\<close> and the one passed to \<open>reject\<close>.\<close>

definition success_response :: "'a BaseController_scheme \<Rightarrow> xhr \<Rightarrow> jsval" where
  "success_response self r =
     plain [(''sender'', BaseController_get_sender self),
            (''recipient'', BaseController_get_recipient self),
            (''sent'', BaseController_get_payload self),
            (''received'', Str (responseText r))]"

definition error_response :: "xhr \<Rightarrow> jsval" where
  "error_response r =
     plain [(''errorCode'', Num (int (status r))), (''errorMessage'', Str (responseText r))]"

definition BaseController_onreadystatechange ::
  "'a BaseController_scheme \<Rightarrow> xhr \<Rightarrow> settled option" where
  "BaseController_onreadystatechange self r =
     (if readyState r = 4 then
        (if status r = 200 then Some (Resolved (success_response self r))
         else Some (Rejected (error_response r)))
      else None)"

text \<open>
  Calls are observed as events. What a function does when called is given by a
  \<open>behaviour\<close>: the events of the calls it makes in turn, and the value it throws, if
  any. Calling a value that is not a function throws a TypeError.
\<close>

datatype event = Call fnref jsval

type_synonym behaviour = "fnref \<Rightarrow> jsval \<Rightarrow> event list \<times> jsval option"

definition call_value :: "behaviour \<Rightarrow> jsval \<Rightarrow> jsval \<Rightarrow> event list \<times> jsval option" where
  "call_value run callee arg =
     (case callee of
        Fn f \<Rightarrow> (Call f arg # fst (run f arg), snd (run f arg))
      | _ \<Rightarrow> ([], Some (ErrObj TypeError)))"

text \<open>
  \<open>promisse.then(resolve => { self.#onSuccessEventHandler(resolve) })
          .catch(reject => { self.#onErrorEventHandler(reject) })\<close>:
  each reaction runs its callback on a promise settled the matching way and passes the
  other way on; a callback that returns resolves the next promise with \<open>undefined\<close>, one
  that throws rejects it with the value thrown.
\<close>

definition after_callback :: "event list \<times> jsval option \<Rightarrow> event list \<times> settled" where
  "after_callback r = (fst r, case snd r of None \<Rightarrow> Resolved Undefined | Some e \<Rightarrow> Rejected e)"

definition then_reaction ::
  "behaviour \<Rightarrow> 'a BaseController_scheme \<Rightarrow> settled \<Rightarrow> event list \<times> settled" where
  "then_reaction run self s =
     (case s of
        Resolved v \<Rightarrow> after_callback (call_value run (onSuccessEventHandler_priv self) v)
      | Rejected e \<Rightarrow> ([], Rejected e))"

definition catch_reaction ::
  "behaviour \<Rightarrow> 'a BaseController_scheme \<Rightarrow> settled \<Rightarrow> event list \<times> settled" where
  "catch_reaction run self s =
     (case s of
        Resolved v \<Rightarrow> ([], Resolved v)
      | Rejected e \<Rightarrow> after_callback (call_value run (onErrorEventHandler_priv self) e))"

definition promise_chain ::
  "behaviour \<Rightarrow> 'a BaseController_scheme \<Rightarrow> settled \<Rightarrow> event list \<times> settled" where
  "promise_chain run self s =
     (let r1 = then_reaction run self s; r2 = catch_reaction run self (snd r1)
      in (fst r1 @ fst r2, snd r2))"

text \<open>A state change of the request: nothing before the request is complete; then the
  promise is settled and the chain runs. The result holds the calls made and the state
  of the last promise of the chain.\<close>

definition BaseController_complete ::
  "behaviour \<Rightarrow> 'a BaseController_scheme \<Rightarrow> xhr \<Rightarrow> (event list \<times> settled) option" where
  "BaseController_complete run self r =
     map_option (promise_chain run self) (BaseController_onreadystatechange self r)"

text \<open>
  The application's functions are known by number; \<open>host k v\<close> is the value function
  \<open>k\<close> throws when called with \<open>v\<close>, \<open>None\<close> when it returns. They are taken not to call
  back into the library, and a built-in function is taken to return. On a plain \<open>BaseController\<close> the two methods of
  \<open>DataController\<close> cannot read \<open>#requestor\<close> and throw a TypeError.
\<close>

type_synonym host = "nat \<Rightarrow> jsval \<Rightarrow> jsval option"

fun BaseController_run :: "host \<Rightarrow> behaviour" where
  "BaseController_run host (UserFn k) arg = ([], host k arg)"
| "BaseController_run host (Builtin n) arg = ([], None)"
| "BaseController_run host f arg = ([], Some (ErrObj TypeError))"

section \<open>DataController\<close>

record DataController = BaseController +
  viewController_priv :: jsval
  requestor_priv :: jsval

text \<open>\<open>super()\<close>, then the two handlers are set through the setters of \<open>BaseController\<close>
  to the methods of this class, then \<open>#requestor\<close>.\<close>

definition DataController_constructor :: "jsval \<Rightarrow> DataController" where
  "DataController_constructor requestor =
     (let c0 = BaseController.extend BaseController_constructor
                 \<lparr>viewController_priv = Undefined, requestor_priv = Undefined\<rparr>;
          c1 = snd (BaseController_set_onSuccessEventHandler c0 (Fn DC_onSuccessEventHandler));
          c2 = snd (BaseController_set_onErrorEventHandler c1 (Fn DC_onErrorEventHandler))
      in c2\<lparr>requestor_priv := requestor\<rparr>)"

text \<open>\<open>obj.name(arg)\<close> for a method supplied by the application: reading the property of
  \<open>null\<close> or \<open>undefined\<close> throws, and so does calling what is not a function.\<close>

fun get_property :: "jsval \<Rightarrow> string \<Rightarrow> jsval" where
  "get_property (Obj chain props) name = (case map_of props name of Some v \<Rightarrow> v | None \<Rightarrow> Undefined)"
| "get_property v name = Undefined"

definition call_method :: "host \<Rightarrow> jsval \<Rightarrow> string \<Rightarrow> jsval \<Rightarrow> event list \<times> jsval option" where
  "call_method host obj name arg =
     (if loose_null obj then ([], Some (ErrObj TypeError))
      else call_value (BaseController_run host) (get_property obj name) arg)"

definition DataController_onSuccessEventHandler ::
  "host \<Rightarrow> DataController \<Rightarrow> jsval \<Rightarrow> event list \<times> jsval option" where
  "DataController_onSuccessEventHandler host self response =
     call_method host (requestor_priv self) ''onDataControllerCallbackEvent''
       (plain [(''status'', Enumerator_get DataControllerStatus ''Succeeded''), (''payload'', response)])"

definition DataController_onErrorEventHandler ::
  "host \<Rightarrow> DataController \<Rightarrow> jsval \<Rightarrow> event list \<times> jsval option" where
  "DataController_onErrorEventHandler host self response =
     call_method host (requestor_priv self) ''onDataControllerCallbackEvent''
       (plain [(''status'', Enumerator_get DataControllerStatus ''Failed''), (''payload'', response)])"

fun DataController_run :: "host \<Rightarrow> DataController \<Rightarrow> behaviour" where
  "DataController_run host self DC_onSuccessEventHandler arg = DataController_onSuccessEventHandler host self arg"
| "DataController_run host self DC_onErrorEventHandler arg = DataController_onErrorEventHandler host self arg"
| "DataController_run host self f arg = BaseController_run host f arg"

definition DataController_complete ::
  "host \<Rightarrow> DataController \<Rightarrow> xhr \<Rightarrow> (event list \<times> settled) option" where
  "DataController_complete host self r = BaseController_complete (DataController_run host self) self r"

section \<open>Example values\<close>

text \<open>Three items and the list that three calls of \<open>push\<close> build from them.\<close>

definition item_a :: jsval where
  "item_a = Obj [''BaseItem'', ''Object''] [(''content'', Str ''a'')]"

definition item_b :: jsval where
  "item_b = Obj [''BaseItem'', ''Object''] [(''content'', Str ''b'')]"

definition item_c :: jsval where
  "item_c = Obj [''BaseItem'', ''Object''] [(''content'', Str ''c'')]"

definition list_abc :: BaseItemList where
  "list_abc =
     snd (BaseItemList_push (snd (BaseItemList_push (snd (BaseItemList_push
       BaseItemList_constructor item_a)) item_b)) item_c)"

text \<open>A new list whose length was then assigned \<open>-1\<close> through the public setter.\<close>

definition list_negative :: BaseItemList where
  "list_negative = BaseItemList_set_length BaseItemList_constructor (- 1)"

text \<open>A new list after \<open>delete(undefined)\<close>, and a new list whose length was assigned
  \<open>2^53\<close>.\<close>

definition list_after_delete_undefined :: BaseItemList where
  "list_after_delete_undefined = snd (BaseItemList_delete_NaN BaseItemList_constructor)"

definition list_huge :: BaseItemList where
  "list_huge = BaseItemList_set_length BaseItemList_constructor (2 ^ 53)"

text \<open>
  What \<open>PATTERN_URL\<close> accepts, said directly: one of four prefixes, then any character
  that is not a line terminator, then a character of the class; what follows is free.
\<close>

definition url_shaped :: "string \<Rightarrow> bool" where
  "url_shaped s =
     (\<exists>p c d rest. s = p @ c # d # rest
        \<and> (p = ''http://www'' \<or> p = ''https://www'' \<or> p = ''http://localhost'' \<or> p = ''https://localhost'')
        \<and> c \<noteq> CHR 0x0A \<and> c \<noteq> CHR 0x0D
        \<and> d \<in> set ''abcdefghijklmnopqrstuvwxyz0123456789-./'')"

text \<open>The invariant of the two handler fields, and the calls that can change the
  fields of a controller.\<close>

definition handler_ok :: "jsval \<Rightarrow> bool" where
  "handler_ok h = (h = Null \<or> typeof h = ''function'')"

definition handlers_ok :: "'a BaseController_scheme \<Rightarrow> bool" where
  "handlers_ok c = (handler_ok (onSuccessEventHandler_priv c) \<and> handler_ok (onErrorEventHandler_priv c))"

datatype controller_op =
    SetPayload jsval
  | SetRecipient jsval
  | SetSender jsval
  | SetOnSuccessEventHandler jsval
  | SetOnErrorEventHandler jsval

fun BaseController_apply :: "'a BaseController_scheme \<Rightarrow> controller_op \<Rightarrow> 'a BaseController_scheme" where
  "BaseController_apply c (SetPayload v) = snd (BaseController_set_payload c v)"
| "BaseController_apply c (SetRecipient v) = snd (BaseController_set_recipient c v)"
| "BaseController_apply c (SetSender v) = snd (BaseController_set_sender c v)"
| "BaseController_apply c (SetOnSuccessEventHandler v) = snd (BaseController_set_onSuccessEventHandler c v)"
| "BaseController_apply c (SetOnErrorEventHandler v) = snd (BaseController_set_onErrorEventHandler c v)"


text \<open>Which functions a list of events calls.\<close>

fun callee :: "event \<Rightarrow> fnref" where
  "callee (Call f arg) = f"

definition called :: "fnref \<Rightarrow> event list \<Rightarrow> bool" where
  "called f evs = (f \<in> set (map callee evs))"

text \<open>
  A payload with one entry; a requestor with the callback method; a controller with
  recipient, payload and both handlers set, and one whose handlers were never set; a
  host whose functions all return and one whose function 1 throws; two responses; a
  DataController for the requestor.
\<close>

definition payload_example :: "jsval Payload" where
  "payload_example =
     Payload_addContent 1600000000000 (Payload (Str ''Form'') []) (plain [(''id'', Num 7)])"


definition form_requestor :: jsval where
  "form_requestor = Obj [''Form'', ''Object''] [(''onDataControllerCallbackEvent'', Fn (UserFn 7))]"

definition controller_unhandled :: BaseController where
  "controller_unhandled =
     foldl BaseController_apply BaseController_constructor
       [SetRecipient (Str ''https://localhost/api''), SetPayload (PayloadObj payload_example)]"

definition controller_example :: BaseController where
  "controller_example =
     foldl BaseController_apply controller_unhandled
       [SetOnSuccessEventHandler (Fn (UserFn 1)), SetOnErrorEventHandler (Fn (UserFn 2))]"

definition quiet_host :: host where
  "quiet_host k v = None"

definition throwing_host :: host where
  "throwing_host k v = (if k = 1 then Some (Str ''boom'') else None)"

definition response_ok :: xhr where
  "response_ok = \<lparr>readyState = 4, status = 200, responseText = ''done''\<rparr>"

definition response_404 :: xhr where
  "response_404 = \<lparr>readyState = 4, status = 404, responseText = ''not found''\<rparr>"

definition data_controller_example :: DataController where
  "data_controller_example = DataController_constructor form_requestor"

text \<open>A host on which the callback of the requestor, function 7, throws.\<close>

definition failing_host :: host where
  "failing_host k v = (if k = 7 then Some (Str ''boom'') else None)"

text \<open>The text of a number starts with a digit or a minus sign.\<close>

definition numeric_head :: "string \<Rightarrow> bool" where
  "numeric_head s = (s \<noteq> [] \<and> hd s \<in> set ''-0123456789'')"

section \<open>Properties of BaseItemList\<close>


lemma list_abc_eq:
  "list_abc = \<lparr>length_priv = 3, items_priv = [0 \<mapsto> item_a, 1 \<mapsto> item_b, 2 \<mapsto> item_c]\<rparr>"
  by (simp add: list_abc_def BaseItemList_push_def BaseItemList_constructor_def item_a_def
      item_b_def item_c_def loose_null_def BaseItemList_get_length_def number_succ_def
      max_exact_def)


text \<open>
  C8, as stated, fails in three ways. On a list whose length was assigned \<open>-1\<close>, \<open>push\<close>
  of a BaseItem returns and the length becomes \<open>0\<close>, but \<open>item(length - 1)\<close> then throws a
  RangeError instead of returning the item. The list's own methods reach the same
  state: on a new list \<open>delete(undefined)\<close> makes the length \<open>-1\<close>. On a list whose
  length was assigned \<open>2^53\<close>, \<open>push\<close> stores the item but leaves the length as it was,
  and \<open>item(length - 1)\<close> returns \<open>undefined\<close>.
\<close>

theorem push_then_item_counterexample:
  "instanceof item_a ''BaseItem''
   \<and> fst (BaseItemList_push list_negative item_a) = Returned Undefined
   \<and> BaseItemList_get_length (snd (BaseItemList_push list_negative item_a)) = 0
   \<and> BaseItemList_item (snd (BaseItemList_push list_negative item_a))
        (BaseItemList_get_length (snd (BaseItemList_push list_negative item_a)) - 1) = Thrown RangeError
   \<and> BaseItemList_item (snd (BaseItemList_push list_negative item_a))
        (BaseItemList_get_length (snd (BaseItemList_push list_negative item_a)) - 1) \<noteq> Returned item_a
   \<and> fst (BaseItemList_delete_NaN BaseItemList_constructor) = Returned Undefined
   \<and> list_after_delete_undefined = list_negative
   \<and> BaseItemList_get_length list_huge = 2 ^ 53
   \<and> fst (BaseItemList_push list_huge item_a) = Returned Undefined
   \<and> BaseItemList_get_length (snd (BaseItemList_push list_huge item_a)) = 2 ^ 53
   \<and> BaseItemList_item (snd (BaseItemList_push list_huge item_a))
        (BaseItemList_get_length (snd (BaseItemList_push list_huge item_a)) - 1) = Returned Undefined"
  by (simp add: list_negative_def list_after_delete_undefined_def list_huge_def item_a_def
      BaseItemList_push_def BaseItemList_item_def BaseItemList_delete_NaN_def
      BaseItemList_set_length_def BaseItemList_constructor_def BaseItemList_get_length_def
      BaseItemList_get_items_def array_get_def loose_null_def number_succ_def number_pred_def
      max_exact_def)

text \<open>
  C8, amended. On a list whose length is an integer from \<open>0\<close> to \<open>2^53 - 1\<close>, \<open>push(x)\<close> of
  a BaseItem \<open>x\<close> returns, the length grows by exactly one and \<open>item(length - 1)\<close> then
  returns \<open>x\<close>. On any list, \<open>push(x)\<close> of a value that is not a BaseItem throws a
  TypeError and leaves the list, length and entries, as it was.
\<close>

theorem push_appends_or_rejects:
  "(instanceof x ''BaseItem'' \<and> 0 \<le> BaseItemList_get_length L \<and> BaseItemList_get_length L < 2 ^ 53 \<longrightarrow>
      (\<exists>L'. BaseItemList_push L x = (Returned Undefined, L')
         \<and> BaseItemList_get_length L' = BaseItemList_get_length L + 1
         \<and> BaseItemList_item L' (BaseItemList_get_length L' - 1) = Returned x))
   \<and> (\<not> instanceof x ''BaseItem'' \<longrightarrow> BaseItemList_push L x = (Thrown TypeError, L))"
proof (intro conjI impI)
  assume a: "instanceof x ''BaseItem'' \<and> 0 \<le> BaseItemList_get_length L \<and> BaseItemList_get_length L < 2 ^ 53"
  then have "\<not> loose_null x" by (auto simp: loose_null_def)
  with a show "\<exists>L'. BaseItemList_push L x = (Returned Undefined, L')
         \<and> BaseItemList_get_length L' = BaseItemList_get_length L + 1
         \<and> BaseItemList_item L' (BaseItemList_get_length L' - 1) = Returned x"
    by (simp add: BaseItemList_push_def BaseItemList_item_def BaseItemList_get_length_def
        BaseItemList_get_items_def array_get_def number_succ_def number_pred_def max_exact_def)
next
  assume "\<not> instanceof x ''BaseItem''"
  then show "BaseItemList_push L x = (Thrown TypeError, L)"
    by (simp add: BaseItemList_push_def)
qed

theorem push_appends_or_rejects_witness:
  "instanceof item_b ''BaseItem'' \<and> 0 \<le> BaseItemList_get_length list_abc
   \<and> BaseItemList_get_length list_abc < 2 ^ 53
   \<and> (\<exists>L'. BaseItemList_push list_abc item_b = (Returned Undefined, L')
         \<and> BaseItemList_get_length L' = 4
         \<and> BaseItemList_item L' 3 = Returned item_b)
   \<and> \<not> instanceof (Str ''b'') ''BaseItem''
   \<and> BaseItemList_push list_abc (Str ''b'') = (Thrown TypeError, list_abc)"
proof -
  have i: "instanceof item_b ''BaseItem''" by (simp add: item_b_def)
  have l: "BaseItemList_get_length list_abc = 3" by (simp add: list_abc_eq BaseItemList_get_length_def)
  have n: "\<not> instanceof (Str ''b'') ''BaseItem''" by simp
  from push_appends_or_rejects [of item_b list_abc] i l
  have "\<exists>L'. BaseItemList_push list_abc item_b = (Returned Undefined, L')
         \<and> BaseItemList_get_length L' = 4
         \<and> BaseItemList_item L' 3 = Returned item_b"
    by auto
  moreover from push_appends_or_rejects [of "Str ''b''" list_abc] n
  have "BaseItemList_push list_abc (Str ''b'') = (Thrown TypeError, list_abc)" by blast
  ultimately show ?thesis using i l n by simp
qed

section \<open>Properties of PATTERN_URL\<close>

lemma concat_map_nonempty: "concat (map g xs) \<noteq> [] \<longleftrightarrow> (\<exists>x \<in> set xs. g x \<noteq> [])"
  by (induction xs) auto

lemma set_rx_match_Lit: "set (rx_match (Lit l) s) = {t. s = l @ t}"
proof (cases "\<exists>d. s = l @ d")
  case True
  then obtain d where "s = l @ d" ..
  then show ?thesis by auto
next
  case False
  have "take (length l) s \<noteq> l"
  proof
    assume "take (length l) s = l"
    then have "s = l @ drop (length l) s" by (metis append_take_drop_id)
    with False show False by blast
  qed
  with False show ?thesis by simp
qed

lemma set_rx_match_Opt: "set (rx_match (Opt r) s) = insert s (set (rx_match r s))"
  by simp

lemma set_rx_match_Seq: "set (rx_match (Seq a b) s) = (\<Union>t \<in> set (rx_match a s). set (rx_match b t))"
  by simp

lemma rx_match_Many1_OneOf:
  "rx_match (Many1 (OneOf cs)) s \<noteq> [] \<longleftrightarrow> (\<exists>d rest. s = d # rest \<and> d \<in> set cs)"
  by (cases s) (simp_all add: concat_map_nonempty)

lemma set_rx_match_Dot: "set (rx_match (Alt Dot (Lit ''/'')) s) = {t. \<exists>c. s = c # t \<and> c \<noteq> CHR 0x0A \<and> c \<noteq> CHR 0x0D}"
  by (cases s) auto

lemma set_rx_match_Alt: "set (rx_match (Alt a b) s) = set (rx_match a s) \<union> set (rx_match b s)"
  by simp

lemma regex_test_nonempty: "regex_test r s \<longleftrightarrow> set (rx_match r s) \<noteq> {}"
  by (simp add: regex_test_def)

lemma rx_match_prefix_general:
  "set (rx_match (Seq (Lit a) (Seq (Opt (Lit b)) (Seq (Lit c) (Seq (Alt (Lit d) (Lit e)) r)))) s)
   = (\<Union>t \<in> {t. s = a @ c @ d @ t \<or> s = a @ b @ c @ d @ t \<or> s = a @ c @ e @ t \<or> s = a @ b @ c @ e @ t}.
        set (rx_match r t))"
  unfolding set_rx_match_Seq set_rx_match_Lit set_rx_match_Opt set_rx_match_Alt
  by auto

lemma rx_match_prefix_part:
  "set (rx_match (Seq (Lit ''http'') (Seq (Opt (Lit ''s'')) (Seq (Lit ''://'')
          (Seq (Alt (Lit ''www'') (Lit ''localhost'')) r)))) s)
   = (\<Union>t \<in> {t. s = ''http://www'' @ t \<or> s = ''https://www'' @ t
                  \<or> s = ''http://localhost'' @ t \<or> s = ''https://localhost'' @ t}.
        set (rx_match r t))"
proof -
  have "{t. s = ''http'' @ ''://'' @ ''www'' @ t \<or> s = ''http'' @ ''s'' @ ''://'' @ ''www'' @ t
           \<or> s = ''http'' @ ''://'' @ ''localhost'' @ t \<or> s = ''http'' @ ''s'' @ ''://'' @ ''localhost'' @ t}
       = {t. s = ''http://www'' @ t \<or> s = ''https://www'' @ t
                  \<or> s = ''http://localhost'' @ t \<or> s = ''https://localhost'' @ t}"
    by auto
  then show ?thesis
    using rx_match_prefix_general [of "''http''" "''s''" "''://''" "''www''" "''localhost''" r s]
    by (simp only:)
qed

lemma rx_match_tail_part:
  "rx_match (Seq (Alt Dot (Lit ''/'')) (Many1 (OneOf cs))) t \<noteq> [] \<longleftrightarrow>
     (\<exists>c d rest. t = c # d # rest \<and> c \<noteq> CHR 0x0A \<and> c \<noteq> CHR 0x0D \<and> d \<in> set cs)"
proof -
  have "rx_match (Seq (Alt Dot (Lit ''/'')) (Many1 (OneOf cs))) t \<noteq> [] \<longleftrightarrow>
      (\<exists>u \<in> set (rx_match (Alt Dot (Lit ''/'')) t). rx_match (Many1 (OneOf cs)) u \<noteq> [])"
    by (simp only: rx_match.simps(6) concat_map_nonempty)
  also have "\<dots> \<longleftrightarrow> (\<exists>c d rest. t = c # d # rest \<and> c \<noteq> CHR 0x0A \<and> c \<noteq> CHR 0x0D \<and> d \<in> set cs)"
    unfolding set_rx_match_Dot rx_match_Many1_OneOf by blast
  finally show ?thesis .
qed

lemma UN_set_nonempty: "(\<Union>t \<in> {t. P t}. set (f t)) \<noteq> {} \<longleftrightarrow> (\<exists>t. P t \<and> f t \<noteq> [])"
  by auto

lemma prefix_then_two:
  "(\<exists>t. (s = p1 @ t \<or> s = p2 @ t \<or> s = p3 @ t \<or> s = p4 @ t)
         \<and> (\<exists>c d rest. t = c # d # rest \<and> Q c \<and> R d))
   \<longleftrightarrow> (\<exists>p c d rest. s = p @ c # d # rest \<and> (p = p1 \<or> p = p2 \<or> p = p3 \<or> p = p4) \<and> Q c \<and> R d)"
  by blast

lemma PATTERN_URL_shape: "regex_test PATTERN_URL s \<longleftrightarrow> url_shaped s"
proof -
  have "regex_test PATTERN_URL s \<longleftrightarrow>
      (\<exists>t. (s = ''http://www'' @ t \<or> s = ''https://www'' @ t
                  \<or> s = ''http://localhost'' @ t \<or> s = ''https://localhost'' @ t)
           \<and> rx_match (Seq (Alt Dot (Lit ''/'')) (Many1 (OneOf ''abcdefghijklmnopqrstuvwxyz0123456789-./''))) t \<noteq> [])"
    by (simp only: regex_test_nonempty PATTERN_URL_def rx_match_prefix_part UN_set_nonempty)
  also have "\<dots> \<longleftrightarrow> url_shaped s"
    using prefix_then_two [of s "''http://www''" "''https://www''" "''http://localhost''" "''https://localhost''"
        "\<lambda>c. c \<noteq> CHR 0x0A \<and> c \<noteq> CHR 0x0D" "\<lambda>d. d \<in> set ''abcdefghijklmnopqrstuvwxyz0123456789-./''"]
    by (simp only: rx_match_tail_part url_shaped_def conj_assoc)
  finally show ?thesis .
qed

section \<open>Properties of BaseController\<close>

text \<open>
  C6. Assigning \<open>v\<close> to \<open>recipient\<close>, and likewise to \<open>sender\<close>, throws a TypeError and
  leaves the controller as it was when \<open>v\<close> is \<open>null\<close> (or \<open>undefined\<close>), is not a string
  or is a string that \<open>PATTERN_URL\<close> does not match; otherwise the setter returns, the
  getter then returns \<open>v\<close>, and the other of the two fields is untouched.
\<close>

theorem url_setters_validate:
  "(loose_null v \<or> typeof v \<noteq> ''string'' \<or> \<not> regex_test PATTERN_URL (ToString v) \<longrightarrow>
      BaseController_set_recipient c v = (Thrown TypeError, c)
      \<and> BaseController_set_sender c v = (Thrown TypeError, c))
   \<and> (\<not> loose_null v \<and> typeof v = ''string'' \<and> regex_test PATTERN_URL (ToString v) \<longrightarrow>
      (\<exists>c'. BaseController_set_recipient c v = (Returned Undefined, c')
            \<and> BaseController_get_recipient c' = v \<and> BaseController_get_sender c' = BaseController_get_sender c)
      \<and> (\<exists>c'. BaseController_set_sender c v = (Returned Undefined, c')
            \<and> BaseController_get_sender c' = v \<and> BaseController_get_recipient c' = BaseController_get_recipient c))"
  by (simp add: BaseController_set_recipient_def BaseController_set_sender_def invalid_url_def
      BaseController_get_recipient_def BaseController_get_sender_def)

lemma url_ok_example: "regex_test PATTERN_URL ''https://localhost/api''"
  by (simp add: regex_test_def PATTERN_URL_def)

lemma url_bad_example: "\<not> regex_test PATTERN_URL ''ftp://www.example.com''"
  by (simp add: regex_test_def PATTERN_URL_def)

theorem url_setters_validate_witness:
  "(\<exists>c'. BaseController_set_recipient BaseController_constructor (Str ''https://localhost/api'')
            = (Returned Undefined, c')
        \<and> BaseController_get_recipient c' = Str ''https://localhost/api'')
   \<and> BaseController_set_recipient BaseController_constructor (Str ''ftp://www.example.com'')
        = (Thrown TypeError, BaseController_constructor)
   \<and> BaseController_set_sender BaseController_constructor Null
        = (Thrown TypeError, BaseController_constructor)
   \<and> BaseController_set_sender BaseController_constructor (Num 80)
        = (Thrown TypeError, BaseController_constructor)"
proof -
  have "\<exists>c'. BaseController_set_recipient BaseController_constructor (Str ''https://localhost/api'')
            = (Returned Undefined, c')
        \<and> BaseController_get_recipient c' = Str ''https://localhost/api''"
    using url_setters_validate [of "Str ''https://localhost/api''" BaseController_constructor]
      url_ok_example
    by (auto simp: loose_null_def)
  moreover have "BaseController_set_recipient BaseController_constructor (Str ''ftp://www.example.com'')
        = (Thrown TypeError, BaseController_constructor)"
    using url_setters_validate [of "Str ''ftp://www.example.com''" BaseController_constructor]
      url_bad_example
    by simp
  moreover have "BaseController_set_sender BaseController_constructor Null
        = (Thrown TypeError, BaseController_constructor)"
    using url_setters_validate [of Null BaseController_constructor]
    by (simp add: loose_null_def)
  moreover have "BaseController_set_sender BaseController_constructor (Num 80)
        = (Thrown TypeError, BaseController_constructor)"
    using url_setters_validate [of "Num 80" BaseController_constructor]
    by simp
  ultimately show ?thesis by simp
qed

lemma handler_setter_ok: "handler_ok (if \<not> loose_null v \<and> typeof v = ''function'' then v else Null)"
  by (simp add: handler_ok_def)

lemma BaseController_apply_handlers_ok: "handlers_ok c \<Longrightarrow> handlers_ok (BaseController_apply c op)"
  by (cases op)
    (simp_all add: handlers_ok_def handler_ok_def BaseController_set_payload_def
      BaseController_set_recipient_def BaseController_set_sender_def
      BaseController_set_onSuccessEventHandler_def BaseController_set_onErrorEventHandler_def)

lemma BaseController_foldl_handlers_ok:
  "handlers_ok c \<Longrightarrow> handlers_ok (foldl BaseController_apply c ops)"
  by (induction ops arbitrary: c) (simp_all add: BaseController_apply_handlers_ok)

text \<open>
  C9. The fields \<open>#onSuccessEventHandler\<close> and \<open>#onErrorEventHandler\<close> are always \<open>null\<close>
  or a function: the constructors establish this, every sequence of setter calls
  preserves it, the two handler setters never throw, and they store \<open>null\<close> for a value
  that is \<open>null\<close> or not a function and the value itself for a function.
\<close>

theorem handlers_null_or_function:
  "handlers_ok BaseController_constructor
   \<and> handlers_ok (DataController_constructor requestor)
   \<and> (handlers_ok c \<longrightarrow> handlers_ok (foldl BaseController_apply c ops))
   \<and> fst (BaseController_set_onSuccessEventHandler c v) = Returned Undefined
   \<and> fst (BaseController_set_onErrorEventHandler c v) = Returned Undefined
   \<and> (v = Null \<or> typeof v \<noteq> ''function'' \<longrightarrow>
        onSuccessEventHandler_priv (snd (BaseController_set_onSuccessEventHandler c v)) = Null
        \<and> onErrorEventHandler_priv (snd (BaseController_set_onErrorEventHandler c v)) = Null)
   \<and> (typeof v = ''function'' \<longrightarrow>
        onSuccessEventHandler_priv (snd (BaseController_set_onSuccessEventHandler c v)) = v
        \<and> onErrorEventHandler_priv (snd (BaseController_set_onErrorEventHandler c v)) = v)"
proof -
  have "handlers_ok BaseController_constructor"
    by (simp add: handlers_ok_def handler_ok_def BaseController_constructor_def)
  moreover have "handlers_ok (DataController_constructor requestor)"
    by (simp add: handlers_ok_def handler_ok_def DataController_constructor_def
        BaseController_set_onSuccessEventHandler_def BaseController_set_onErrorEventHandler_def
        loose_null_def Let_def)
  moreover have "typeof v = ''function'' \<Longrightarrow> \<not> loose_null v"
    by (auto simp: loose_null_def)
  ultimately show ?thesis
    by (auto simp: BaseController_foldl_handlers_ok BaseController_set_onSuccessEventHandler_def
        BaseController_set_onErrorEventHandler_def loose_null_def)
qed

theorem handlers_null_or_function_witness:
  "handlers_ok BaseController_constructor
   \<and> handlers_ok (foldl BaseController_apply BaseController_constructor
        [SetOnSuccessEventHandler (Str ''notify''), SetOnErrorEventHandler (Fn (UserFn 1)),
         SetRecipient (Num 3)])
   \<and> onSuccessEventHandler_priv
        (snd (BaseController_set_onSuccessEventHandler BaseController_constructor (Str ''notify''))) = Null
   \<and> onErrorEventHandler_priv
        (snd (BaseController_set_onErrorEventHandler BaseController_constructor (Fn (UserFn 1)))) = Fn (UserFn 1)"
proof -
  note a = handlers_null_or_function [of Undefined BaseController_constructor
      "[SetOnSuccessEventHandler (Str ''notify''), SetOnErrorEventHandler (Fn (UserFn 1)), SetRecipient (Num 3)]"
      "Str ''notify''"]
  note b = handlers_null_or_function [of Undefined BaseController_constructor "[]" "Fn (UserFn 1)"]
  from a have "handlers_ok BaseController_constructor" by blast
  moreover from a have "handlers_ok (foldl BaseController_apply BaseController_constructor
        [SetOnSuccessEventHandler (Str ''notify''), SetOnErrorEventHandler (Fn (UserFn 1)),
         SetRecipient (Num 3)])" by blast
  moreover from a have "onSuccessEventHandler_priv
        (snd (BaseController_set_onSuccessEventHandler BaseController_constructor (Str ''notify''))) = Null"
    by simp
  moreover from b have "onErrorEventHandler_priv
        (snd (BaseController_set_onErrorEventHandler BaseController_constructor (Fn (UserFn 1)))) = Fn (UserFn 1)"
    by simp
  ultimately show ?thesis by simp
qed

section \<open>Properties of execute\<close>

lemma controller_unhandled_eq:
  "controller_unhandled =
     \<lparr>recipient_priv = Str ''https://localhost/api'', sender_priv = Undefined,
      payload_priv = PayloadObj payload_example,
      onSuccessEventHandler_priv = Null, onErrorEventHandler_priv = Null\<rparr>"
  by (simp add: controller_unhandled_def BaseController_constructor_def
      BaseController_set_recipient_def BaseController_set_payload_def invalid_url_def
      loose_null_def url_ok_example)

lemma controller_example_eq:
  "controller_example =
     \<lparr>recipient_priv = Str ''https://localhost/api'', sender_priv = Undefined,
      payload_priv = PayloadObj payload_example,
      onSuccessEventHandler_priv = Fn (UserFn 1), onErrorEventHandler_priv = Fn (UserFn 2)\<rparr>"
  by (simp add: controller_example_def controller_unhandled_eq
      BaseController_set_onSuccessEventHandler_def BaseController_set_onErrorEventHandler_def
      loose_null_def)

text \<open>
  C2. When a request completes (\<open>readyState\<close> 4) with a status other than 200, the
  promise is rejected with exactly \<open>{errorCode: status, errorMessage: responseText}\<close>;
  the success reaction passes the rejection on and the error reaction calls the
  controller's \<open>#onErrorEventHandler\<close> with that object, so a handler that is a function
  receives it as its argument, in the first call made.
\<close>

theorem non_200_takes_error_path:
  assumes "readyState r = 4" and "status r \<noteq> 200"
  shows "BaseController_onreadystatechange self r = Some (Rejected (error_response r))
     \<and> error_response r = plain [(''errorCode'', Num (int (status r))), (''errorMessage'', Str (responseText r))]
     \<and> BaseController_complete run self r
         = Some (after_callback (call_value run (onErrorEventHandler_priv self) (error_response r)))
     \<and> (\<forall>h. onErrorEventHandler_priv self = Fn h \<longrightarrow>
           (\<exists>s. BaseController_complete run self r
                 = Some (Call h (error_response r) # fst (run h (error_response r)), s)))"
  using assms
  by (simp add: BaseController_onreadystatechange_def BaseController_complete_def
      promise_chain_def then_reaction_def catch_reaction_def Let_def error_response_def
      after_callback_def call_value_def)





theorem non_200_takes_error_path_witness:
  "readyState response_404 = 4 \<and> status response_404 \<noteq> 200
   \<and> BaseController_onreadystatechange controller_example response_404
       = Some (Rejected (plain [(''errorCode'', Num 404), (''errorMessage'', Str ''not found'')]))
   \<and> BaseController_complete (BaseController_run quiet_host) controller_example response_404
       = Some ([Call (UserFn 2) (plain [(''errorCode'', Num 404), (''errorMessage'', Str ''not found'')])],
               Resolved Undefined)"
proof -
  have a: "readyState response_404 = 4" and b: "status response_404 \<noteq> 200"
    by (simp_all add: response_404_def)
  have e: "error_response response_404 = plain [(''errorCode'', Num 404), (''errorMessage'', Str ''not found'')]"
    by (simp add: error_response_def response_404_def)
  have h: "onErrorEventHandler_priv controller_example = Fn (UserFn 2)"
    by (simp add: controller_example_eq)
  note t = non_200_takes_error_path [OF a b, of controller_example "BaseController_run quiet_host"]
  from t have "BaseController_onreadystatechange controller_example response_404
       = Some (Rejected (plain [(''errorCode'', Num 404), (''errorMessage'', Str ''not found'')]))"
    by (simp only: e)
  moreover from t have "BaseController_complete (BaseController_run quiet_host) controller_example response_404
       = Some ([Call (UserFn 2) (plain [(''errorCode'', Num 404), (''errorMessage'', Str ''not found'')])],
               Resolved Undefined)"
    by (simp add: e h after_callback_def call_value_def quiet_host_def)
  ultimately show ?thesis using a b by simp
qed


lemma BaseController_run_no_events: "fst (BaseController_run host f arg) = []"
  by (cases f) simp_all

lemma DataControllerStatus_Failed: "Enumerator_get DataControllerStatus ''Failed'' = Bool False"
  by (simp add: Enumerator_get_def DataControllerStatus_def object_has_def object_get_def)

lemma DataControllerStatus_Succeeded: "Enumerator_get DataControllerStatus ''Succeeded'' = Bool True"
  by (simp add: Enumerator_get_def DataControllerStatus_def object_has_def object_get_def)

text \<open>
  C4, as stated, fails. On a controller with recipient and payload set whose handlers
  were never assigned, a completed request calls neither handler: calling \<open>null\<close> throws a
  TypeError in each reaction and the chain ends rejected. On a controller with both
  handlers, a success handler that throws is followed by a call of the error handler
  with the value thrown, so a response with status 200 calls both. The same happens on
  a DataController whose requestor's callback throws: the response with status 200
  reaches the requestor twice, as a success and then as a failure.
\<close>

theorem completion_paths_counterexample:
  "BaseController_complete (BaseController_run quiet_host) controller_unhandled response_ok
     = Some ([], Rejected (ErrObj TypeError))
   \<and> BaseController_complete (BaseController_run throwing_host) controller_example response_ok
     = Some ([Call (UserFn 1) (success_response controller_example response_ok), Call (UserFn 2) (Str ''boom'')],
             Resolved Undefined)
   \<and> called (UserFn 1) [Call (UserFn 1) (success_response controller_example response_ok), Call (UserFn 2) (Str ''boom'')]
   \<and> called (UserFn 2) [Call (UserFn 1) (success_response controller_example response_ok), Call (UserFn 2) (Str ''boom'')]
   \<and> DataController_complete failing_host data_controller_example response_ok
     = Some ([Call DC_onSuccessEventHandler (success_response data_controller_example response_ok),
              Call (UserFn 7) (plain [(''status'', Bool True),
                                      (''payload'', success_response data_controller_example response_ok)]),
              Call DC_onErrorEventHandler (Str ''boom''),
              Call (UserFn 7) (plain [(''status'', Bool False), (''payload'', Str ''boom'')])],
             Rejected (Str ''boom''))"
proof -
  have h: "onSuccessEventHandler_priv data_controller_example = Fn DC_onSuccessEventHandler"
    "onErrorEventHandler_priv data_controller_example = Fn DC_onErrorEventHandler"
    "requestor_priv data_controller_example = form_requestor"
    by (simp_all add: data_controller_example_def DataController_constructor_def Let_def
        BaseController_set_onSuccessEventHandler_def BaseController_set_onErrorEventHandler_def
        loose_null_def)
  have c: "call_method failing_host form_requestor ''onDataControllerCallbackEvent'' v
      = ([Call (UserFn 7) v], Some (Str ''boom''))" for v
    by (simp add: call_method_def call_value_def form_requestor_def loose_null_def failing_host_def)
  have d: "DataController_complete failing_host data_controller_example response_ok
     = Some ([Call DC_onSuccessEventHandler (success_response data_controller_example response_ok),
              Call (UserFn 7) (plain [(''status'', Bool True),
                                      (''payload'', success_response data_controller_example response_ok)]),
              Call DC_onErrorEventHandler (Str ''boom''),
              Call (UserFn 7) (plain [(''status'', Bool False), (''payload'', Str ''boom'')])],
             Rejected (Str ''boom''))"
    by (simp add: DataController_complete_def BaseController_complete_def
        BaseController_onreadystatechange_def response_ok_def promise_chain_def then_reaction_def
        catch_reaction_def after_callback_def call_value_def Let_def h c
        DataController_onSuccessEventHandler_def DataController_onErrorEventHandler_def
        DataControllerStatus_Failed DataControllerStatus_Succeeded)
  show ?thesis
    using d
    by (simp add: BaseController_complete_def BaseController_onreadystatechange_def response_ok_def
        promise_chain_def then_reaction_def catch_reaction_def after_callback_def call_value_def
        controller_unhandled_eq controller_example_eq throwing_host_def quiet_host_def called_def Let_def)
qed

text \<open>
  C4, amended. When a request completes on a controller whose two handlers are
  functions, the promise is settled one way: resolved when the status is 200, rejected
  otherwise. If the success handler does not throw, the chain makes exactly one handler
  call: the success handler on status 200, the error handler otherwise; with distinct
  handlers supplied by the application, exactly one of the two is called.
\<close>

theorem completion_takes_one_path:
  assumes "readyState r = 4"
    and "onSuccessEventHandler_priv self = Fn hs" and "onErrorEventHandler_priv self = Fn he"
    and "status r = 200 \<longrightarrow> snd (run hs (success_response self r)) = None"
  shows "(status r = 200 \<longrightarrow>
            BaseController_onreadystatechange self r = Some (Resolved (success_response self r))
            \<and> BaseController_complete run self r
                = Some (Call hs (success_response self r) # fst (run hs (success_response self r)),
                        Resolved Undefined))
       \<and> (status r \<noteq> 200 \<longrightarrow>
            BaseController_onreadystatechange self r = Some (Rejected (error_response r))
            \<and> (\<exists>s. BaseController_complete run self r
                = Some (Call he (error_response r) # fst (run he (error_response r)), s)))
       \<and> (run = BaseController_run host \<and> hs \<noteq> he \<longrightarrow>
            (\<exists>evs s. BaseController_complete run self r = Some (evs, s) \<and> length evs = 1
               \<and> called hs evs = (status r = 200) \<and> called he evs = (status r \<noteq> 200)))"
  using assms
  by (auto simp: BaseController_onreadystatechange_def BaseController_complete_def
      promise_chain_def then_reaction_def catch_reaction_def Let_def
      after_callback_def call_value_def called_def BaseController_run_no_events)

theorem completion_takes_one_path_witness:
  "BaseController_complete (BaseController_run quiet_host) controller_example response_ok
     = Some ([Call (UserFn 1) (success_response controller_example response_ok)], Resolved Undefined)
   \<and> (\<exists>s. BaseController_complete (BaseController_run quiet_host) controller_example response_404
     = Some ([Call (UserFn 2) (error_response response_404)], s))"
proof -
  have hs: "onSuccessEventHandler_priv controller_example = Fn (UserFn 1)"
    and he: "onErrorEventHandler_priv controller_example = Fn (UserFn 2)"
    by (simp_all add: controller_example_eq)
  have q: "snd (BaseController_run quiet_host (UserFn 1) v) = None" for v
    by (simp add: quiet_host_def)
  have ok: "readyState response_ok = 4" "status response_ok = 200"
    by (simp_all add: response_ok_def)
  have nf: "readyState response_404 = 4" "status response_404 \<noteq> 200"
    by (simp_all add: response_404_def)
  from completion_takes_one_path [of response_ok controller_example "UserFn 1" "UserFn 2"
      "BaseController_run quiet_host" quiet_host] ok hs he q
  have "BaseController_complete (BaseController_run quiet_host) controller_example response_ok
     = Some ([Call (UserFn 1) (success_response controller_example response_ok)], Resolved Undefined)"
    by (simp add: BaseController_run_no_events)
  moreover
  from completion_takes_one_path [of response_404 controller_example "UserFn 1" "UserFn 2"
      "BaseController_run quiet_host" quiet_host] nf hs he
  have "\<exists>s. BaseController_complete (BaseController_run quiet_host) controller_example response_404
     = Some ([Call (UserFn 2) (error_response response_404)], s)"
    by (simp add: BaseController_run_no_events)
  ultimately show ?thesis by simp
qed

section \<open>Properties of DataController\<close>

lemma get_property_Fn_not_null: "get_property obj name = Fn f \<Longrightarrow> \<not> loose_null obj"
  by (cases obj) (simp_all add: loose_null_def)

text \<open>
  C7. On a DataController whose requestor has the method
  \<open>onDataControllerCallbackEvent\<close>, \<open>onErrorEventHandler(r)\<close> calls that method exactly
  once, with \<open>{status: DataControllerStatus.Failed, payload: r}\<close>, where the status reads
  \<open>false\<close> and \<open>r\<close> is passed as it came. A request that completes with a status other
  than 200 reaches the requestor this way, with the rejection object as \<open>r\<close>: the chain
  calls the controller's error method once, which calls the requestor once.
\<close>

theorem failure_surfaced_verbatim:
  assumes "get_property (requestor_priv dc) ''onDataControllerCallbackEvent'' = Fn f"
  shows "Enumerator_get DataControllerStatus ''Failed'' = Bool False
     \<and> fst (DataController_onErrorEventHandler host dc r)
         = [Call f (plain [(''status'', Bool False), (''payload'', r)])]
     \<and> (readyState x = 4 \<and> status x \<noteq> 200 \<and> onErrorEventHandler_priv dc = Fn DC_onErrorEventHandler \<longrightarrow>
          (\<exists>s. DataController_complete host dc x
             = Some ([Call DC_onErrorEventHandler (error_response x),
                      Call f (plain [(''status'', Bool False), (''payload'', error_response x)])], s)))"
proof -
  have n: "\<not> loose_null (requestor_priv dc)"
    using assms by (rule get_property_Fn_not_null)
  have m: "fst (DataController_onErrorEventHandler host dc v)
         = [Call f (plain [(''status'', Bool False), (''payload'', v)])]" for v
    using assms n
    by (simp add: DataController_onErrorEventHandler_def call_method_def call_value_def
        DataControllerStatus_Failed BaseController_run_no_events)
  show ?thesis
    using m
    by (auto simp: DataControllerStatus_Failed DataController_complete_def
        BaseController_complete_def BaseController_onreadystatechange_def promise_chain_def
        then_reaction_def catch_reaction_def after_callback_def call_value_def Let_def)
qed

theorem failure_surfaced_verbatim_witness:
  "fst (DataController_onErrorEventHandler quiet_host data_controller_example (error_response response_404))
     = [Call (UserFn 7) (plain [(''status'', Bool False), (''payload'', error_response response_404)])]
   \<and> (\<exists>s. DataController_complete quiet_host data_controller_example response_404
         = Some ([Call DC_onErrorEventHandler (error_response response_404),
                  Call (UserFn 7) (plain [(''status'', Bool False), (''payload'', error_response response_404)])], s))"
proof -
  have g: "get_property (requestor_priv data_controller_example) ''onDataControllerCallbackEvent'' = Fn (UserFn 7)"
    by (simp add: data_controller_example_def DataController_constructor_def form_requestor_def Let_def)
  have h: "onErrorEventHandler_priv data_controller_example = Fn DC_onErrorEventHandler"
    by (simp add: data_controller_example_def DataController_constructor_def Let_def
        BaseController_set_onSuccessEventHandler_def BaseController_set_onErrorEventHandler_def
        loose_null_def)
  have nf: "readyState response_404 = 4" "status response_404 \<noteq> 200"
    by (simp_all add: response_404_def)
  from failure_surfaced_verbatim [OF g, of quiet_host "error_response response_404" response_404] h nf
  show ?thesis by simp
qed

section \<open>Properties of Payload\<close>

lemma JSON_stringify_Payload: "JSON_stringify (PayloadObj p) = None"
  by (simp add: JSON_stringify_def Payload_toJSON_def Payload_get_content_def)

lemma addContent_appends_entry:
  "Payload_addContent now p obj
     = Payload (Payload_requestor p) (Payload_content p @ [content_entry (Payload_requestor p) now obj])"
  by (simp add: Payload_addContent_def Payload_set_content_def)

text \<open>
  C1: what the code does. \<open>toJSON\<close> returns \<open>this.content\<close>, and the class declares a
  setter for \<open>content\<close> but no getter, so for every payload \<open>toJSON\<close> returns
  \<open>undefined\<close> and \<open>JSON.stringify\<close> of the payload is \<open>undefined\<close>. For a payload built
  with a valid requestor and given one entry by \<open>addContent\<close>, the serialisation is
  therefore not the object \<open>{header: {requestor, time}, body}\<close> that the entry is, and
  the request \<open>execute\<close> sends for a controller holding this payload has no body.
\<close>

theorem payload_serialises_to_undefined:
  "Payload_toJSON p = Undefined
   \<and> JSON_stringify (PayloadObj p) = None
   \<and> Payload_constructor (Obj [''Form'', ''Object''] []) = Inr (Payload (Str ''Form'') [])
   \<and> Payload_addContent 1600000000000 (Payload (Str ''Form'') []) (plain [(''id'', Num 7)])
       = Payload (Str ''Form'')
           [plain [(''header'', plain [(''requestor'', Str ''Form''), (''time'', Num 1600000000000)]),
                   (''body'', plain [(''id'', Num 7)])]]
   \<and> JSON_stringify (PayloadObj (Payload_addContent 1600000000000 (Payload (Str ''Form'') [])
          (plain [(''id'', Num 7)]))) = None
   \<and> JSON_stringify (PayloadObj (Payload_addContent 1600000000000 (Payload (Str ''Form'') [])
          (plain [(''id'', Num 7)])))
       \<noteq> Some (JObj [(''header'', JObj [(''requestor'', JStr ''Form''), (''time'', JNum 1600000000000)]),
                      (''body'', JObj [(''id'', JNum 7)])])
   \<and> BaseController_get_payload controller_example
       = PayloadObj (Payload_addContent 1600000000000 (Payload (Str ''Form'') []) (plain [(''id'', Num 7)]))
   \<and> (\<exists>q. BaseController_execute True controller_example = Inr (Pending q) \<and> body q = None)"
  by (simp add: Payload_constructor_def loose_null_def Payload_toJSON_def Payload_get_content_def
      BaseController_execute_def controller_example_eq BaseController_get_recipient_def
      BaseController_get_payload_def payload_example_def Payload_addContent_def
      Payload_set_content_def content_entry_def JSON_stringify_def)

section \<open>Properties of the DataField constructor\<close>

lemma nat_digits_small: "n < 10 \<Longrightarrow> nat_digits n = [digit_char n]"
  by (simp add: nat_digits.simps)

lemma nat_digits_nonempty: "nat_digits n \<noteq> []"
  by (subst nat_digits.simps) simp

lemma nat_digits_large: "10 \<le> n \<Longrightarrow> 2 \<le> length (nat_digits n)"
proof -
  assume "10 \<le> n"
  then have "nat_digits n = nat_digits (n div 10) @ [digit_char (n mod 10)]"
    by (subst nat_digits.simps) simp
  moreover have "1 \<le> length (nat_digits (n div 10))"
    using nat_digits_nonempty [of "n div 10"] by (cases "nat_digits (n div 10)") simp_all
  ultimately show ?thesis by simp
qed

lemma digit_char_values:
  "digit_char 0 = CHR ''0''" "digit_char 1 = CHR ''1''" "digit_char 2 = CHR ''2''"
  "digit_char 3 = CHR ''3''" "digit_char 4 = CHR ''4''" "digit_char 5 = CHR ''5''"
  "digit_char 6 = CHR ''6''" "digit_char 7 = CHR ''7''" "digit_char 8 = CHR ''8''"
  "digit_char 9 = CHR ''9''" "digit_char (Suc 0) = CHR ''1''"
  by (simp_all add: digit_char_def)

lemma small_cases: "m < 10 \<Longrightarrow> m \<in> {0, 1, 2, 3, 4, 5, 6, 7, 8, 9::nat}"
  by auto

lemma digit_char_is_digit: "n < 10 \<Longrightarrow> digit_char n \<in> set ''0123456789''"
  using small_cases [of n] by (auto simp: digit_char_values)

lemma hd_nat_digits: "hd (nat_digits n) \<in> set ''0123456789''"
proof (induction n rule: nat_digits.induct)
  case (1 n)
  show ?case
  proof (cases "n < 10")
    case True
    then show ?thesis using digit_char_is_digit [of n] by (simp add: nat_digits_small)
  next
    case False
    then have "nat_digits n = nat_digits (n div 10) @ [digit_char (n mod 10)]"
      by (subst nat_digits.simps) simp
    then have "hd (nat_digits n) = hd (nat_digits (n div 10))"
      using nat_digits_nonempty [of "n div 10"] by simp
    with "1" False show ?thesis by simp
  qed
qed

lemma numeric_head_Number_toString: "numeric_head (Number_toString n)"
  using hd_nat_digits [of "nat n"] hd_nat_digits [of "nat (- n)"] nat_digits_nonempty [of "nat n"]
  by (auto simp: numeric_head_def Number_toString_def)

lemma Number_toString_not_a_name:
  "Number_toString n \<notin> set (map fst DataFieldType @ Object_prototype @ Array_prototype @ [''length''])"
proof
  assume "Number_toString n \<in> set (map fst DataFieldType @ Object_prototype @ Array_prototype @ [''length''])"
  then have "\<exists>s \<in> set (map fst DataFieldType @ Object_prototype @ Array_prototype @ [''length'']). numeric_head s"
    using numeric_head_Number_toString by blast
  then show False
    by (simp add: DataFieldType_def Object_prototype_def Array_prototype_def numeric_head_def)
qed

lemma nat_digits_single: "nat_digits m = [c] \<Longrightarrow> m < 10 \<and> c = digit_char m"
proof -
  assume a: "nat_digits m = [c]"
  have "m < 10"
  proof (rule ccontr)
    assume "\<not> m < 10"
    then have "2 \<le> length (nat_digits m)" by (simp add: nat_digits_large)
    with a show False by simp
  qed
  with a show ?thesis by (simp add: nat_digits_small)
qed

lemma Number_toString_index:
  "i < 4 \<Longrightarrow> nat_digits i = Number_toString n \<longleftrightarrow> n = int i"
proof
  assume i: "i < 4" and e: "nat_digits i = Number_toString n"
  from i have s: "nat_digits i = [digit_char i]" by (simp add: nat_digits_small)
  have "0 \<le> n"
  proof (rule ccontr)
    assume "\<not> 0 \<le> n"
    then have "Number_toString n = CHR ''-'' # nat_digits (nat (- n))" by (simp add: Number_toString_def)
    with e s nat_digits_nonempty [of "nat (- n)"] show False by simp
  qed
  then have "Number_toString n = nat_digits (nat n)" by (simp add: Number_toString_def)
  with e s have "nat_digits (nat n) = [digit_char i]" by simp
  then have "nat n < 10" and "digit_char i = digit_char (nat n)"
    using nat_digits_single by blast+
  moreover from i have "i = 0 \<or> i = 1 \<or> i = 2 \<or> i = 3" by arith
  ultimately have "nat n = i"
    using small_cases [of "nat n"] by (auto simp: digit_char_values)
  with \<open>0 \<le> n\<close> show "n = int i" by simp
next
  assume "i < 4" and "n = int i"
  then show "nat_digits i = Number_toString n" by (simp add: Number_toString_def)
qed

lemma DataFieldType_keys:
  "Reflect_ownKeys DataFieldType = [''String'', ''Number'', ''DateTime'', ''Boolean'']"
  by (simp add: Reflect_ownKeys_def DataFieldType_def)

lemma find_index_text:
  "find (\<lambda>i. nat_digits i = Number_toString n) [0, 1, 2, 3]
      = (if n = 0 then Some 0 else if n = 1 then Some 1 else if n = 2 then Some 2
         else if n = 3 then Some 3 else None)"
  using Number_toString_index [of 0 n] Number_toString_index [of 1 n]
    Number_toString_index [of 2 n] Number_toString_index [of 3 n]
  by simp

lemma string_array_get_DataFieldType_Num:
  "string_array_get [''String'', ''Number'', ''DateTime'', ''Boolean''] (Number_toString n)
     = (if n = 0 then Str ''String'' else if n = 1 then Str ''Number''
         else if n = 2 then Str ''DateTime'' else if n = 3 then Str ''Boolean'' else Undefined)"
proof -
  from Number_toString_not_a_name [of n]
  have op: "Number_toString n \<notin> set Object_prototype"
    and ap: "Number_toString n \<notin> set Array_prototype" and len: "Number_toString n \<noteq> ''length''"
    by simp_all
  have l: "[0..<length [''String'', ''Number'', ''DateTime'', ''Boolean'']] = [0, 1, 2, 3]"
    by (simp add: upt_rec)
  show ?thesis
    unfolding string_array_get_def l find_index_text
    using op ap len by simp
qed

lemma in_Enumerator_DataFieldType_Num:
  "in_Enumerator (Num n) DataFieldType \<longleftrightarrow> 0 \<le> n \<and> n \<le> 3"
proof -
  from Number_toString_not_a_name [of n]
  have "Number_toString n \<notin> fst ` set DataFieldType" and op: "Number_toString n \<notin> set Object_prototype"
    by simp_all
  then have own: "map_of DataFieldType (Number_toString n) = None"
    by (simp add: map_of_eq_None_iff)
  have "Enumerator_has DataFieldType (Number_toString n)
      = string_array_get (Reflect_ownKeys DataFieldType) (Number_toString n)"
    using own op by (simp add: Enumerator_has_def object_has_def)
  then have "Enumerator_has DataFieldType (Number_toString n)
      = (if n = 0 then Str ''String'' else if n = 1 then Str ''Number''
         else if n = 2 then Str ''DateTime'' else if n = 3 then Str ''Boolean'' else Undefined)"
    by (simp only: DataFieldType_keys string_array_get_DataFieldType_Num)
  then show ?thesis
    by (auto simp: in_Enumerator_def)
qed

text \<open>
  C5: what the constructor does. For a numeric field type the test \<open>fieldType in
  DataFieldType\<close> holds exactly for 0, 1, 2 and 3, the indices of the enumerator's four
  keys, and not for its four constants 1 to 4. So the constant \<open>DataFieldType.Boolean\<close>,
  which is 4, makes the constructor throw a TypeError whatever the other arguments are,
  and 0, which is no constant, is accepted.
\<close>

theorem DataField_type_check_off_by_one:
  "(in_Enumerator (Num n) DataFieldType \<longleftrightarrow> 0 \<le> n \<and> n \<le> 3)
   \<and> Enumerator_get DataFieldType ''Boolean'' = Num 4
   \<and> DataField_constructor name (Enumerator_get DataFieldType ''Boolean'') val required callback
       = Inl TypeError
   \<and> DataField_constructor name (Num 0) val (Bool True) (Fn f)
       = Inr \<lparr>fieldName = name, fieldType = Num 0, fieldValue = val, isRequired = Bool True,
              onValidateCallback = Fn f\<rparr>"
proof -
  have b: "Enumerator_get DataFieldType ''Boolean'' = Num 4"
    by (simp add: Enumerator_get_def DataFieldType_def object_has_def object_get_def)
  have "\<not> in_Enumerator (Num 4) DataFieldType" and "in_Enumerator (Num 0) DataFieldType"
    by (simp_all add: in_Enumerator_DataFieldType_Num)
  then show ?thesis
    by (simp add: b in_Enumerator_DataFieldType_Num DataField_constructor_def)
qed

end
